theory Spec2Isabelle
  imports Main "HOL-Library.Word"
begin

unbundle bit_operations_syntax

section \<open>Data model of xenia/gpu/shader.h\<close>

subsection \<open>Fixed-size arrays\<close>

text \<open>
  The header stores swizzles, operands and bitmap blocks in C arrays of a fixed size.
  An array of four elements is a value with exactly four components. Reading it at a
  variable index is \<open>array4_get\<close>, which is \<open>None\<close> where the C++ read would be
  out of bounds; reading it at a literal index is one of the selectors.
\<close>

datatype 'a array4 = Array4 (elem0: 'a) (elem1: 'a) (elem2: 'a) (elem3: 'a)

fun array4_get :: "'a array4 \<Rightarrow> nat \<Rightarrow> 'a option" where
  "array4_get (Array4 a b c d) i =
     (if i = 0 then Some a else if i = 1 then Some b else if i = 2 then Some c
      else if i = 3 then Some d else None)"

datatype 'a array3 = Array3 (op0: 'a) (op1: 'a) (op2: 'a)

datatype 'a array2 = Array2 'a 'a

subsection \<open>Enumerations\<close>

datatype InstructionStorageTarget =
    kNone
  | kRegister
  | kInterpolator
  | kPosition
  | kPointSizeEdgeFlagKillVertex
  | kExportAddress
  | kExportData
  | kColor
  | kDepth

fun GetInstructionStorageTargetUsedComponents :: "InstructionStorageTarget \<Rightarrow> 32 word" where
  "GetInstructionStorageTargetUsedComponents kNone = 0"
| "GetInstructionStorageTargetUsedComponents kPointSizeEdgeFlagKillVertex = 7"
| "GetInstructionStorageTargetUsedComponents kDepth = 1"
| "GetInstructionStorageTargetUsedComponents _ = 15"

datatype InstructionStorageAddressingMode =
    kStatic
  | kAddressAbsolute
  | kAddressRelative

datatype SwizzleSource = kX | kY | kZ | kW | k0 | k1

text \<open>The value of the enumerator, as \<open>uint32_t(components[i])\<close> reads it.\<close>

fun SwizzleSource_value :: "SwizzleSource \<Rightarrow> 32 word" where
  "SwizzleSource_value kX = 0"
| "SwizzleSource_value kY = 1"
| "SwizzleSource_value kZ = 2"
| "SwizzleSource_value kW = 3"
| "SwizzleSource_value k0 = 4"
| "SwizzleSource_value k1 = 5"

datatype InstructionStorageSource =
    kRegister
  | kConstantFloat
  | kVertexFetchConstant
  | kTextureFetchConstant

subsection \<open>InstructionResult\<close>

record InstructionResult =
  storage_target :: InstructionStorageTarget
  storage_index :: "32 word"
  storage_addressing_mode :: InstructionStorageAddressingMode
  is_clamped :: bool
  original_write_mask :: "32 word"
  components :: "SwizzleSource array4"

definition GetUsedWriteMask :: "InstructionResult \<Rightarrow> 32 word" where
  "GetUsedWriteMask r =
     original_write_mask r AND GetInstructionStorageTargetUsedComponents (storage_target r)"

definition InstructionResult_IsStandardSwizzle :: "InstructionResult \<Rightarrow> bool" where
  "InstructionResult_IsStandardSwizzle r \<longleftrightarrow>
     GetUsedWriteMask r = 15 \<and>
     elem0 (InstructionResult.components r) = kX \<and>
     elem1 (InstructionResult.components r) = kY \<and>
     elem2 (InstructionResult.components r) = kZ \<and>
     elem3 (InstructionResult.components r) = kW"

text \<open>
  The loop of \<open>GetUsedResultComponents\<close>: \<open>i\<close> is the loop counter, the last argument
  is \<open>used_components\<close>. The result is \<open>None\<close> if \<open>components[i]\<close> were read out
  of bounds.
\<close>

function GetUsedResultComponents_loop ::
  "InstructionResult \<Rightarrow> 32 word \<Rightarrow> nat \<Rightarrow> 32 word \<Rightarrow> 32 word option" where
  "GetUsedResultComponents_loop r used_write_mask i used_components =
     (if i < 4 then
        (case array4_get (InstructionResult.components r) i of
           None \<Rightarrow> None
         | Some c \<Rightarrow>
             GetUsedResultComponents_loop r used_write_mask (i + 1)
               (if used_write_mask AND push_bit i 1 \<noteq> 0 \<and>
                   SwizzleSource_value kX \<le> SwizzleSource_value c \<and>
                   SwizzleSource_value c \<le> SwizzleSource_value kW
                then used_components OR
                       push_bit (unat (SwizzleSource_value c - SwizzleSource_value kX)) 1
                else used_components))
      else Some used_components)"
  by pat_completeness auto
termination
  by (relation "measure (\<lambda>(r, m, i, u). 4 - i)") auto

declare GetUsedResultComponents_loop.simps [simp del]

definition GetUsedResultComponents :: "InstructionResult \<Rightarrow> 32 word option" where
  "GetUsedResultComponents r = GetUsedResultComponents_loop r (GetUsedWriteMask r) 0 0"

text \<open>
  The bit that lane \<open>i\<close> with the swizzle source \<open>c\<close> adds to \<open>used_components\<close>
  in one round of the loop of \<open>GetUsedResultComponents\<close>, for the used write mask
  \<open>w\<close>.
\<close>

definition lane_bit :: "32 word \<Rightarrow> nat \<Rightarrow> SwizzleSource \<Rightarrow> 32 word" where
  "lane_bit w i c =
     (if bit w i \<and> c \<in> {kX, kY, kZ, kW}
      then push_bit (unat (SwizzleSource_value c)) 1 else 0)"

text \<open>The member initialisers of \<open>struct InstructionResult\<close>.\<close>

definition default_InstructionResult :: InstructionResult where
  "default_InstructionResult =
     \<lparr> storage_target = kNone,
       storage_index = 0,
       storage_addressing_mode = kStatic,
       is_clamped = False,
       original_write_mask = 0,
       components = Array4 kX kY kZ kW \<rparr>"

subsection \<open>InstructionOperand\<close>

record InstructionOperand =
  storage_source :: InstructionStorageSource
  storage_index :: "32 word"
  storage_addressing_mode :: InstructionStorageAddressingMode
  is_negated :: bool
  is_absolute_value :: bool
  component_count :: "32 word"
  components :: "SwizzleSource array4"

text \<open>The member initialisers of \<open>struct InstructionOperand\<close>.\<close>

definition default_InstructionOperand :: InstructionOperand where
  "default_InstructionOperand =
     \<lparr> storage_source = InstructionStorageSource.kRegister,
       storage_index = 0,
       storage_addressing_mode = kStatic,
       is_negated = False,
       is_absolute_value = False,
       component_count = 4,
       components = Array4 kX kY kZ kW \<rparr>"

text \<open>
  \<open>components[std::min(index, component_count - 1)]\<close>: the subtraction is on
  \<open>uint32_t\<close> and wraps for \<open>component_count = 0\<close>; the read is \<open>None\<close> when the
  index is past the four elements.
\<close>

definition GetComponent :: "InstructionOperand \<Rightarrow> 32 word \<Rightarrow> SwizzleSource option" where
  "GetComponent a index =
     array4_get (InstructionOperand.components a) (unat (min index (component_count a - 1)))"

definition InstructionOperand_IsStandardSwizzle :: "InstructionOperand \<Rightarrow> bool" where
  "InstructionOperand_IsStandardSwizzle a =
     (if component_count a = 4 then
        elem0 (InstructionOperand.components a) = kX \<and>
        elem1 (InstructionOperand.components a) = kY \<and>
        elem2 (InstructionOperand.components a) = kZ \<and>
        elem3 (InstructionOperand.components a) = kW
      else False)"

text \<open>
  The loop of \<open>GetAbsoluteIdenticalComponents\<close>, with the counter \<open>i\<close> and the
  accumulator \<open>identical_components\<close>.
\<close>

function GetAbsoluteIdenticalComponents_loop ::
  "InstructionOperand \<Rightarrow> InstructionOperand \<Rightarrow> nat \<Rightarrow> 32 word \<Rightarrow> 32 word option" where
  "GetAbsoluteIdenticalComponents_loop a other i identical_components =
     (if i < 4 then
        (case (GetComponent a (of_nat i), GetComponent other (of_nat i)) of
           (Some x, Some y) \<Rightarrow>
             GetAbsoluteIdenticalComponents_loop a other (i + 1)
               (identical_components OR push_bit i (of_bool (x = y)))
         | _ \<Rightarrow> None)
      else Some identical_components)"
  by pat_completeness auto
termination
  by (relation "measure (\<lambda>(a, b, i, u). 4 - i)") auto

declare GetAbsoluteIdenticalComponents_loop.simps [simp del]

definition GetAbsoluteIdenticalComponents ::
  "InstructionOperand \<Rightarrow> InstructionOperand \<Rightarrow> 32 word option" where
  "GetAbsoluteIdenticalComponents a other =
     (if storage_source a \<noteq> storage_source other \<or>
         InstructionOperand.storage_index a \<noteq> InstructionOperand.storage_index other \<or>
         InstructionOperand.storage_addressing_mode a \<noteq>
           InstructionOperand.storage_addressing_mode other
      then Some 0
      else GetAbsoluteIdenticalComponents_loop a other 0 0)"

definition GetIdenticalComponents ::
  "InstructionOperand \<Rightarrow> InstructionOperand \<Rightarrow> 32 word option" where
  "GetIdenticalComponents a other =
     (if is_negated a \<noteq> is_negated other \<or> is_absolute_value a \<noteq> is_absolute_value other
      then Some 0
      else GetAbsoluteIdenticalComponents a other)"

subsection \<open>ParsedAluInstruction\<close>

text \<open>
  Modelled from the spec: the enumerations \<open>ucode::AluVectorOpcode\<close> and
  \<open>ucode::AluScalarOpcode\<close> are declared in xenia/gpu/ucode.h, which is not among the
  sources. The header names the vector opcodes \<open>kAdd\<close>, \<open>kMax\<close> (the spec's
  max-style default) and \<open>kMad\<close> (multiply-add) and the scalar opcodes \<open>kAdds\<close> and
  \<open>kRetainPrev\<close> (retain previous value); every other opcode is an opaque tag.
\<close>

datatype AluVectorOpcode = kAdd | kMax | kMad | kOtherVectorOpcode nat

datatype AluScalarOpcode = kAdds | kRetainPrev | kOtherScalarOpcode nat

record ParsedAluInstruction =
  vector_opcode :: AluVectorOpcode
  scalar_opcode :: AluScalarOpcode
  vector_opcode_name :: "string option"
  scalar_opcode_name :: "string option"
  is_predicated :: bool
  predicate_condition :: bool
  vector_and_constant_result :: InstructionResult
  scalar_result :: InstructionResult
  vector_operand_count :: "32 word"
  vector_operands :: "InstructionOperand array3"
  scalar_operand_count :: "32 word"
  scalar_operands :: "InstructionOperand array2"

text \<open>The member initialisers of \<open>struct ParsedAluInstruction\<close>.\<close>

definition default_ParsedAluInstruction :: ParsedAluInstruction where
  "default_ParsedAluInstruction =
     \<lparr> vector_opcode = kAdd,
       scalar_opcode = kAdds,
       vector_opcode_name = None,
       scalar_opcode_name = None,
       is_predicated = False,
       predicate_condition = False,
       vector_and_constant_result = default_InstructionResult,
       scalar_result = default_InstructionResult,
       vector_operand_count = 0,
       vector_operands =
         Array3 default_InstructionOperand default_InstructionOperand default_InstructionOperand,
       scalar_operand_count = 0,
       scalar_operands = Array2 default_InstructionOperand default_InstructionOperand \<rparr>"

definition IsScalarOpDefaultNop :: "ParsedAluInstruction \<Rightarrow> bool" where
  "IsScalarOpDefaultNop instr =
     (if scalar_opcode instr \<noteq> kRetainPrev \<or>
         original_write_mask (scalar_result instr) \<noteq> 0 \<or>
         is_clamped (scalar_result instr)
      then False
      else if storage_target (scalar_result instr) = InstructionStorageTarget.kRegister \<and>
              (InstructionResult.storage_index (scalar_result instr) \<noteq> 0 \<or>
               InstructionResult.storage_addressing_mode (scalar_result instr) \<noteq> kStatic)
      then False
      else True)"

definition IsVectorOpDefaultNop :: "ParsedAluInstruction \<Rightarrow> bool" where
  "IsVectorOpDefaultNop instr =
     (if vector_opcode instr \<noteq> kMax \<or>
         original_write_mask (vector_and_constant_result instr) \<noteq> 0 \<or>
         is_clamped (vector_and_constant_result instr) \<or>
         storage_source (op0 (vector_operands instr)) \<noteq> InstructionStorageSource.kRegister \<or>
         InstructionOperand.storage_index (op0 (vector_operands instr)) \<noteq> 0 \<or>
         InstructionOperand.storage_addressing_mode (op0 (vector_operands instr)) \<noteq> kStatic \<or>
         is_negated (op0 (vector_operands instr)) \<or>
         is_absolute_value (op0 (vector_operands instr)) \<or>
         \<not> InstructionOperand_IsStandardSwizzle (op0 (vector_operands instr)) \<or>
         storage_source (op1 (vector_operands instr)) \<noteq> InstructionStorageSource.kRegister \<or>
         InstructionOperand.storage_index (op1 (vector_operands instr)) \<noteq> 0 \<or>
         InstructionOperand.storage_addressing_mode (op1 (vector_operands instr)) \<noteq> kStatic \<or>
         is_negated (op1 (vector_operands instr)) \<or>
         is_absolute_value (op1 (vector_operands instr)) \<or>
         \<not> InstructionOperand_IsStandardSwizzle (op1 (vector_operands instr))
      then False
      else if storage_target (vector_and_constant_result instr) =
                InstructionStorageTarget.kRegister
      then
        (if InstructionResult.storage_index (vector_and_constant_result instr) \<noteq> 0 \<or>
            InstructionResult.storage_addressing_mode (vector_and_constant_result instr) \<noteq>
              kStatic
         then False else True)
      else if IsScalarOpDefaultNop instr then False
      else True)"

text \<open>
  \<open>ucode::AluVectorOpHasSideEffects\<close> is declared in xenia/gpu/ucode.h, which is not
  among the sources: \<open>IsNop\<close> takes it as the parameter \<open>has_side_effects\<close>.
\<close>

definition IsNop :: "(AluVectorOpcode \<Rightarrow> bool) \<Rightarrow> ParsedAluInstruction \<Rightarrow> bool" where
  "IsNop has_side_effects instr \<longleftrightarrow>
     scalar_opcode instr = kRetainPrev \<and>
     \<not> (GetUsedWriteMask (scalar_result instr) \<noteq> 0) \<and>
     \<not> (GetUsedWriteMask (vector_and_constant_result instr) \<noteq> 0) \<and>
     \<not> has_side_effects (vector_opcode instr)"

definition UINT32_MAX :: "32 word" where
  "UINT32_MAX = 0xFFFFFFFF"

text \<open>
  The conjunction of \<open>GetMemExportStreamConstant\<close> is evaluated left to right and stops
  at the first false operand, so \<open>GetUsedResultComponents\<close> runs only for a multiply-add
  to the export address.
\<close>

definition GetMemExportStreamConstant :: "ParsedAluInstruction \<Rightarrow> 32 word option" where
  "GetMemExportStreamConstant instr =
     (if storage_target (vector_and_constant_result instr) = kExportAddress \<and>
         vector_opcode instr = kMad
      then
        (case GetUsedResultComponents (vector_and_constant_result instr) of
           None \<Rightarrow> None
         | Some used \<Rightarrow>
             if used = 15 \<and>
                \<not> is_clamped (vector_and_constant_result instr) \<and>
                storage_source (op2 (vector_operands instr)) = kConstantFloat \<and>
                InstructionOperand.storage_addressing_mode (op2 (vector_operands instr)) =
                  kStatic \<and>
                InstructionOperand_IsStandardSwizzle (op2 (vector_operands instr)) \<and>
                \<not> is_negated (op2 (vector_operands instr)) \<and>
                \<not> is_absolute_value (op2 (vector_operands instr))
             then Some (InstructionOperand.storage_index (op2 (vector_operands instr)))
             else Some UINT32_MAX)
      else Some UINT32_MAX)"

subsection \<open>Shader::ConstantRegisterMap\<close>

record ConstantRegisterMap =
  float_bitmap :: "64 word array4"
  loop_bitmap :: "32 word"
  bool_bitmap :: "32 word list"
  float_count :: "32 word"
  float_dynamic_addressing :: bool

text \<open>
  Modelled from the spec: \<open>xe::bit_count\<close> is declared in xenia/base/math.h, which is
  not among the sources; the spec asks for an exact bit population count. The count of a
  64-bit block is at most 64 and is added to a \<open>uint32_t\<close>.
\<close>

definition bit_count :: "64 word \<Rightarrow> 32 word" where
  "bit_count v = of_nat (length (filter (bit v) [0..<64]))"

text \<open>
  The loop of \<open>GetPackedFloatConstantIndex\<close> over the blocks below \<open>block_index\<close>,
  with the counter \<open>i\<close> and the accumulator \<open>offset\<close>.
\<close>

function GetPackedFloatConstantIndex_loop ::
  "ConstantRegisterMap \<Rightarrow> 32 word \<Rightarrow> nat \<Rightarrow> 32 word \<Rightarrow> 32 word option" where
  "GetPackedFloatConstantIndex_loop m block_index i offset =
     (if i < unat block_index then
        (case array4_get (float_bitmap m) i of
           None \<Rightarrow> None
         | Some blk \<Rightarrow>
             GetPackedFloatConstantIndex_loop m block_index (i + 1) (offset + bit_count blk))
      else Some offset)"
  by pat_completeness auto
termination
  by (relation "measure (\<lambda>(m, b, i, u). unat b - i)") auto

declare GetPackedFloatConstantIndex_loop.simps [simp del]

definition GetPackedFloatConstantIndex ::
  "ConstantRegisterMap \<Rightarrow> 32 word \<Rightarrow> 32 word option" where
  "GetPackedFloatConstantIndex m float_constant =
     (if float_constant \<ge> 256 then Some UINT32_MAX
      else if float_dynamic_addressing m then Some float_constant
      else
        (let block_index = float_constant div 64;
             bit_index = float_constant mod 64
         in case array4_get (float_bitmap m) (unat block_index) of
              None \<Rightarrow> None
            | Some blk \<Rightarrow>
                if \<not> (blk AND push_bit (unat bit_index) 1 \<noteq> 0) then Some UINT32_MAX
                else
                  (case GetPackedFloatConstantIndex_loop m block_index 0 0 of
                     None \<Rightarrow> None
                   | Some offset \<Rightarrow>
                       Some (offset +
                             bit_count (blk AND (push_bit (unat bit_index) 1 - 1))))))"

text \<open>
  Bit \<open>j\<close> of the 256-bit usage bitmap: bit \<open>j mod 64\<close> of block \<open>j div 64\<close>.
\<close>

definition float_bit_set :: "ConstantRegisterMap \<Rightarrow> nat \<Rightarrow> bool" where
  "float_bit_set m j =
     (case array4_get (float_bitmap m) (j div 64) of
        None \<Rightarrow> False
      | Some blk \<Rightarrow> bit blk (j mod 64))"

text \<open>The set of the indices whose bit is set, and the packed index the spec gives one.\<close>

definition used_float_constants :: "ConstantRegisterMap \<Rightarrow> nat set" where
  "used_float_constants m = {j. j < 256 \<and> float_bit_set m j}"

definition set_bits_below :: "ConstantRegisterMap \<Rightarrow> nat \<Rightarrow> nat" where
  "set_bits_below m c = card {j. j < c \<and> float_bit_set m j}"

text \<open>
  The map of the spec's scenario: exactly the bits 3, 5 and 130 are set, that is
  \<open>0x28\<close> in block 0 and \<open>0x4\<close> in block 2.
\<close>

definition scenario_map :: "bool \<Rightarrow> ConstantRegisterMap" where
  "scenario_map dynamic =
     \<lparr> float_bitmap = Array4 0x28 0 0x4 0,
       loop_bitmap = 0,
       bool_bitmap = [0, 0, 0, 0, 0, 0, 0, 0],
       float_count = 3,
       float_dynamic_addressing = dynamic \<rparr>"

subsection \<open>Example operands\<close>

text \<open>An operand that declares the two components \<open>w\<close> and \<open>z\<close>.\<close>

definition two_component_operand :: InstructionOperand where
  "two_component_operand =
     default_InstructionOperand \<lparr> component_count := 2, components := Array4 kW kZ kY kX \<rparr>"

text \<open>Register 0 with the standard swizzle, negated.\<close>

definition negated_operand :: InstructionOperand where
  "negated_operand = default_InstructionOperand \<lparr> is_negated := True \<rparr>"

text \<open>Register 0 with the swizzle \<open>xxzw\<close>.\<close>

definition xxzw_operand :: InstructionOperand where
  "xxzw_operand = default_InstructionOperand \<lparr> components := Array4 kX kX kZ kW \<rparr>"

subsection \<open>Example instructions\<close>

text \<open>
  A freshly constructed instruction whose vector opcode is \<open>kMax\<close>: every other field
  has its member initialiser, so the scalar opcode is \<open>kAdds\<close>. The result of the
  vector operation goes to the given target.
\<close>

definition max_instruction :: "InstructionStorageTarget \<Rightarrow> ParsedAluInstruction" where
  "max_instruction target =
     default_ParsedAluInstruction
       \<lparr> vector_opcode := kMax,
         vector_and_constant_result := default_InstructionResult \<lparr> storage_target := target \<rparr> \<rparr>"

text \<open>A scalar \<open>kRetainPrev\<close> next to the default vector operation, nothing written.\<close>

definition retain_prev_instruction :: ParsedAluInstruction where
  "retain_prev_instruction = default_ParsedAluInstruction \<lparr> scalar_opcode := kRetainPrev \<rparr>"

text \<open>The same with the scalar result written to the x component of a register.\<close>

definition retain_prev_write_instruction :: ParsedAluInstruction where
  "retain_prev_write_instruction =
     retain_prev_instruction
       \<lparr> scalar_result := default_InstructionResult
           \<lparr> storage_target := InstructionStorageTarget.kRegister, original_write_mask := 1 \<rparr> \<rparr>"

text \<open>
  A multiply-add to the memory-export address that writes all four lanes, with the float
  constant 7 as its third operand; the swizzle of the result is the parameter.
\<close>

definition memexport_instruction :: "SwizzleSource array4 \<Rightarrow> ParsedAluInstruction" where
  "memexport_instruction swizzle =
     default_ParsedAluInstruction
       \<lparr> vector_opcode := kMad,
         vector_and_constant_result := default_InstructionResult
           \<lparr> storage_target := kExportAddress, original_write_mask := 15,
             InstructionResult.components := swizzle \<rparr>,
         vector_operand_count := 3,
         vector_operands := Array3 default_InstructionOperand default_InstructionOperand
           (default_InstructionOperand \<lparr> storage_source := kConstantFloat,
              InstructionOperand.storage_index := 7 \<rparr>) \<rparr>"

section \<open>Results: the write mask restricted to the target\<close>

text \<open>
  Claim C8. For every InstructionResult, GetUsedWriteMask() is original_write_mask AND
  the fixed component mask of its storage_target. It is therefore a subset of that fixed
  mask: every bit of the used mask is a bit of the fixed mask. For the depth target it is
  never more than the single bit 0b0001, for the point-size/edge-flag/kill-vertex target
  never more than 0b0111, and for the none target it is always empty.
\<close>

theorem GetUsedWriteMask_within_target_mask:
  "GetUsedWriteMask r =
     original_write_mask r AND GetInstructionStorageTargetUsedComponents (storage_target r) \<and>
   GetUsedWriteMask r AND GetInstructionStorageTargetUsedComponents (storage_target r) =
     GetUsedWriteMask r \<and>
   GetUsedWriteMask r AND NOT (GetInstructionStorageTargetUsedComponents (storage_target r)) = 0 \<and>
   (\<forall>n. bit (GetUsedWriteMask r) n \<longrightarrow>
        bit (GetInstructionStorageTargetUsedComponents (storage_target r)) n) \<and>
   (storage_target r = kDepth \<longrightarrow> GetUsedWriteMask r \<le> 1 \<and> GetUsedWriteMask r AND NOT 1 = 0) \<and>
   (storage_target r = kPointSizeEdgeFlagKillVertex \<longrightarrow>
      GetUsedWriteMask r \<le> 7 \<and> GetUsedWriteMask r AND NOT 7 = 0) \<and>
   (storage_target r = kNone \<longrightarrow> GetUsedWriteMask r = 0)"
  by (simp add: GetUsedWriteMask_def word_and_le1 and.assoc bit_and_iff)

theorem GetUsedWriteMask_within_target_mask_witness:
  "storage_target (default_InstructionResult\<lparr>storage_target := kDepth, original_write_mask := 15\<rparr>) = kDepth \<and>
   GetUsedWriteMask (default_InstructionResult\<lparr>storage_target := kDepth, original_write_mask := 15\<rparr>) = 1 \<and>
   bit (GetUsedWriteMask (default_InstructionResult\<lparr>storage_target := kDepth, original_write_mask := 15\<rparr>)) 0 \<and>
   GetUsedWriteMask (default_InstructionResult\<lparr>storage_target := kDepth, original_write_mask := 15\<rparr>) \<le> 1"
  using GetUsedWriteMask_within_target_mask
    [of "default_InstructionResult\<lparr>storage_target := kDepth, original_write_mask := 15\<rparr>"]
  by (simp add: GetUsedWriteMask_def default_InstructionResult_def)

lemma and_small_mask_neq_15:
  fixes x k :: "32 word"
  assumes "k < 15"
  shows "x AND k \<noteq> 15"
proof
  assume "x AND k = 15"
  moreover have "x AND k \<le> k" by (rule word_and_le1)
  ultimately show False using assms by simp
qed

lemma used_components_smaller_iff:
  "GetInstructionStorageTargetUsedComponents t \<noteq> 15 \<longleftrightarrow>
     t \<in> {kNone, kDepth, kPointSizeEdgeFlagKillVertex}"
  by (cases t) simp_all

text \<open>
  Claim C10. For every InstructionResult whose storage_target has a fixed component mask
  smaller than all four components, which are exactly the none, depth and
  point-size/edge-flag/kill-vertex targets, IsStandardSwizzle() returns false whatever
  original_write_mask and the components array hold, because it requires the used write
  mask to be the full mask 0b1111.
\<close>

theorem InstructionResult_IsStandardSwizzle_partial_target:
  "(storage_target r \<in> {kNone, kDepth, kPointSizeEdgeFlagKillVertex} \<longrightarrow>
      \<not> InstructionResult_IsStandardSwizzle r) \<and>
   (GetInstructionStorageTargetUsedComponents (storage_target r) \<noteq> 15 \<longrightarrow>
      \<not> InstructionResult_IsStandardSwizzle r)"
proof -
  have "\<not> InstructionResult_IsStandardSwizzle r"
    if "storage_target r \<in> {kNone, kDepth, kPointSizeEdgeFlagKillVertex}"
  proof -
    have "GetInstructionStorageTargetUsedComponents (storage_target r) < 15"
      using that by auto
    then have "GetUsedWriteMask r \<noteq> 15"
      unfolding GetUsedWriteMask_def by (rule and_small_mask_neq_15)
    then show ?thesis
      by (simp add: InstructionResult_IsStandardSwizzle_def)
  qed
  then show ?thesis
    using used_components_smaller_iff [of "storage_target r"] by blast
qed

theorem InstructionResult_IsStandardSwizzle_partial_target_witness:
  "storage_target (default_InstructionResult\<lparr>storage_target := kDepth, original_write_mask := 15\<rparr>)
     \<in> {kNone, kDepth, kPointSizeEdgeFlagKillVertex} \<and>
   \<not> InstructionResult_IsStandardSwizzle
       (default_InstructionResult\<lparr>storage_target := kDepth, original_write_mask := 15\<rparr>) \<and>
   InstructionResult_IsStandardSwizzle
       (default_InstructionResult\<lparr>storage_target := kColor, original_write_mask := 15\<rparr>)"
  using InstructionResult_IsStandardSwizzle_partial_target
    [of "default_InstructionResult\<lparr>storage_target := kDepth, original_write_mask := 15\<rparr>"]
  by (simp add: default_InstructionResult_def InstructionResult_IsStandardSwizzle_def
      GetUsedWriteMask_def)

section \<open>ALU instructions: the no-op tests\<close>

text \<open>
  Claim C5. For every ALU instruction, IsNop() returns true exactly when the scalar
  opcode is the retain-previous-value opcode and the scalar result's used write mask is
  empty and the vector-and-constant result's used write mask is empty and the vector opcode
  has no side effects. Consequently IsNop() = true implies that GetUsedWriteMask() is
  empty on both the vector and the scalar result, and any nonzero used mask implies not
  nop. This holds for every side-effect test \<open>has_side_effects\<close>.
\<close>

theorem IsNop_iff:
  "(IsNop has_side_effects instr \<longleftrightarrow>
      scalar_opcode instr = kRetainPrev \<and>
      GetUsedWriteMask (scalar_result instr) = 0 \<and>
      GetUsedWriteMask (vector_and_constant_result instr) = 0 \<and>
      \<not> has_side_effects (vector_opcode instr)) \<and>
   (IsNop has_side_effects instr \<longrightarrow>
      GetUsedWriteMask (vector_and_constant_result instr) = 0 \<and>
      GetUsedWriteMask (scalar_result instr) = 0) \<and>
   (GetUsedWriteMask (vector_and_constant_result instr) \<noteq> 0 \<or>
    GetUsedWriteMask (scalar_result instr) \<noteq> 0 \<longrightarrow>
      \<not> IsNop has_side_effects instr)"
  by (auto simp: IsNop_def)

theorem IsNop_iff_witness:
  "IsNop (\<lambda>opcode. False) retain_prev_instruction \<and>
   GetUsedWriteMask (vector_and_constant_result retain_prev_instruction) = 0 \<and>
   GetUsedWriteMask (scalar_result retain_prev_instruction) = 0 \<and>
   GetUsedWriteMask (scalar_result retain_prev_write_instruction) \<noteq> 0 \<and>
   \<not> IsNop (\<lambda>opcode. False) retain_prev_write_instruction"
  using IsNop_iff [of "\<lambda>opcode. False" retain_prev_instruction]
    IsNop_iff [of "\<lambda>opcode. False" retain_prev_write_instruction]
  by (simp add: retain_prev_instruction_def retain_prev_write_instruction_def
      default_ParsedAluInstruction_def default_InstructionResult_def GetUsedWriteMask_def)

text \<open>
  Claim C4. For every ALU instruction whose vector result storage target is not the plain
  register target, IsVectorOpDefaultNop() returns true only if IsScalarOpDefaultNop()
  returns false: when both operations would be default no-ops against an export target,
  the vector operation is kept.
\<close>

theorem IsVectorOpDefaultNop_export_needs_scalar_op:
  "storage_target (vector_and_constant_result instr) \<noteq> InstructionStorageTarget.kRegister \<Longrightarrow>
   IsVectorOpDefaultNop instr \<Longrightarrow> \<not> IsScalarOpDefaultNop instr"
  by (simp add: IsVectorOpDefaultNop_def split: if_splits)

theorem IsVectorOpDefaultNop_export_needs_scalar_op_witness:
  "storage_target (vector_and_constant_result (max_instruction kColor))
     \<noteq> InstructionStorageTarget.kRegister \<and>
   IsVectorOpDefaultNop (max_instruction kColor) \<and>
   \<not> IsScalarOpDefaultNop (max_instruction kColor)"
proof -
  have t: "storage_target (vector_and_constant_result (max_instruction kColor))
      \<noteq> InstructionStorageTarget.kRegister"
    by (simp add: max_instruction_def default_InstructionResult_def)
  have v: "IsVectorOpDefaultNop (max_instruction kColor)"
    by (simp add: IsVectorOpDefaultNop_def IsScalarOpDefaultNop_def max_instruction_def
        default_ParsedAluInstruction_def default_InstructionResult_def
        default_InstructionOperand_def InstructionOperand_IsStandardSwizzle_def)
  from t v IsVectorOpDefaultNop_export_needs_scalar_op [OF t v] show ?thesis by simp
qed

lemma InstructionOperand_default_iff:
  "a = default_InstructionOperand \<longleftrightarrow>
     storage_source a = InstructionStorageSource.kRegister \<and>
     InstructionOperand.storage_index a = 0 \<and>
     InstructionOperand.storage_addressing_mode a = kStatic \<and>
     \<not> is_negated a \<and> \<not> is_absolute_value a \<and>
     InstructionOperand_IsStandardSwizzle a"
  by (cases a, cases "InstructionOperand.components a")
     (auto simp: default_InstructionOperand_def InstructionOperand_IsStandardSwizzle_def)

lemma IsVectorOpDefaultNop_iff:
  "IsVectorOpDefaultNop instr \<longleftrightarrow>
     vector_opcode instr = kMax \<and>
     original_write_mask (vector_and_constant_result instr) = 0 \<and>
     \<not> is_clamped (vector_and_constant_result instr) \<and>
     op0 (vector_operands instr) = default_InstructionOperand \<and>
     op1 (vector_operands instr) = default_InstructionOperand \<and>
     (if storage_target (vector_and_constant_result instr) = InstructionStorageTarget.kRegister
      then InstructionResult.storage_index (vector_and_constant_result instr) = 0 \<and>
           InstructionResult.storage_addressing_mode (vector_and_constant_result instr) = kStatic
      else \<not> IsScalarOpDefaultNop instr)"
  unfolding InstructionOperand_default_iff IsVectorOpDefaultNop_def by auto

lemma IsScalarOpDefaultNop_vector_result:
  "IsScalarOpDefaultNop (instr\<lparr>vector_and_constant_result := r\<rparr>) = IsScalarOpDefaultNop instr"
  by (simp add: IsScalarOpDefaultNop_def)

lemmas max_instruction_defs =
  max_instruction_def default_ParsedAluInstruction_def default_InstructionResult_def

text \<open>
  Claim C3, as the code has it. Take an ALU instruction whose vector side is fully
  default (vector opcode kMax, original write mask empty, not clamped, vector operands 0
  and 1 equal to register 0 with static addressing, no negate, no absolute value and the
  standard swizzle, which are all the fields of an operand) and whose result targets a
  plain register with index 0 and static addressing. Then IsVectorOpDefaultNop() returns
  true, and it returns false after a change of any one of the fields the test reads on this
  path: the vector opcode, the original write mask, is_clamped, the result's storage index
  or addressing mode, or anything in vector operand 0 or in vector operand 1. A change of
  the storage target to a target other than the register makes the answer the negation of
  IsScalarOpDefaultNop(). A change of a field the test does not read (the predication,
  the scalar opcode, the third vector operand, the result's swizzle) leaves it true.
\<close>

theorem IsVectorOpDefaultNop_default_register:
  assumes "vector_opcode instr = kMax"
    and "original_write_mask (vector_and_constant_result instr) = 0"
    and "\<not> is_clamped (vector_and_constant_result instr)"
    and "storage_target (vector_and_constant_result instr) = InstructionStorageTarget.kRegister"
    and "InstructionResult.storage_index (vector_and_constant_result instr) = 0"
    and "InstructionResult.storage_addressing_mode (vector_and_constant_result instr) = kStatic"
    and "vector_operands instr = Array3 default_InstructionOperand default_InstructionOperand c"
  shows "IsVectorOpDefaultNop instr \<and>
    (\<forall>opcode. opcode \<noteq> kMax \<longrightarrow> \<not> IsVectorOpDefaultNop (instr\<lparr>vector_opcode := opcode\<rparr>)) \<and>
    (\<forall>mask. mask \<noteq> 0 \<longrightarrow>
       \<not> IsVectorOpDefaultNop (instr\<lparr>vector_and_constant_result :=
            (vector_and_constant_result instr)\<lparr>original_write_mask := mask\<rparr>\<rparr>)) \<and>
    \<not> IsVectorOpDefaultNop (instr\<lparr>vector_and_constant_result :=
          (vector_and_constant_result instr)\<lparr>is_clamped := True\<rparr>\<rparr>) \<and>
    (\<forall>index. index \<noteq> 0 \<longrightarrow>
       \<not> IsVectorOpDefaultNop (instr\<lparr>vector_and_constant_result :=
            (vector_and_constant_result instr)\<lparr>InstructionResult.storage_index := index\<rparr>\<rparr>)) \<and>
    (\<forall>mode. mode \<noteq> kStatic \<longrightarrow>
       \<not> IsVectorOpDefaultNop (instr\<lparr>vector_and_constant_result :=
            (vector_and_constant_result instr)
              \<lparr>InstructionResult.storage_addressing_mode := mode\<rparr>\<rparr>)) \<and>
    (\<forall>a. a \<noteq> default_InstructionOperand \<longrightarrow>
       \<not> IsVectorOpDefaultNop (instr\<lparr>vector_operands := Array3 a default_InstructionOperand c\<rparr>)) \<and>
    (\<forall>b. b \<noteq> default_InstructionOperand \<longrightarrow>
       \<not> IsVectorOpDefaultNop (instr\<lparr>vector_operands := Array3 default_InstructionOperand b c\<rparr>)) \<and>
    (\<forall>target. target \<noteq> InstructionStorageTarget.kRegister \<longrightarrow>
       IsVectorOpDefaultNop (instr\<lparr>vector_and_constant_result :=
            (vector_and_constant_result instr)\<lparr>storage_target := target\<rparr>\<rparr>)
         = (\<not> IsScalarOpDefaultNop instr)) \<and>
    (\<forall>p q opcode d swizzle.
       IsVectorOpDefaultNop (instr\<lparr>is_predicated := p\<rparr>) \<and>
       IsVectorOpDefaultNop (instr\<lparr>predicate_condition := q\<rparr>) \<and>
       IsVectorOpDefaultNop (instr\<lparr>scalar_opcode := opcode\<rparr>) \<and>
       IsVectorOpDefaultNop (instr\<lparr>vector_operands :=
          Array3 default_InstructionOperand default_InstructionOperand d\<rparr>) \<and>
       IsVectorOpDefaultNop (instr\<lparr>vector_and_constant_result :=
          (vector_and_constant_result instr)\<lparr>InstructionResult.components := swizzle\<rparr>\<rparr>))"
  using assms by (simp add: IsVectorOpDefaultNop_iff IsScalarOpDefaultNop_vector_result)

theorem IsVectorOpDefaultNop_default_register_witness:
  "IsVectorOpDefaultNop (max_instruction InstructionStorageTarget.kRegister) \<and>
   \<not> IsVectorOpDefaultNop (max_instruction InstructionStorageTarget.kRegister
        \<lparr>vector_opcode := kAdd\<rparr>) \<and>
   \<not> IsVectorOpDefaultNop (max_instruction InstructionStorageTarget.kRegister
        \<lparr>vector_and_constant_result :=
           (vector_and_constant_result (max_instruction InstructionStorageTarget.kRegister))
             \<lparr>is_clamped := True\<rparr>\<rparr>) \<and>
   \<not> IsVectorOpDefaultNop (max_instruction InstructionStorageTarget.kRegister
        \<lparr>vector_operands :=
           Array3 negated_operand default_InstructionOperand default_InstructionOperand\<rparr>) \<and>
   \<not> IsVectorOpDefaultNop (max_instruction InstructionStorageTarget.kRegister
        \<lparr>vector_operands :=
           Array3 default_InstructionOperand two_component_operand default_InstructionOperand\<rparr>)"
proof -
  have neg: "negated_operand \<noteq> default_InstructionOperand"
    by (simp add: negated_operand_def default_InstructionOperand_def)
  have two: "two_component_operand \<noteq> default_InstructionOperand"
    by (simp add: two_component_operand_def default_InstructionOperand_def)
  show ?thesis
    using neg two
      IsVectorOpDefaultNop_default_register
        [of "max_instruction InstructionStorageTarget.kRegister" default_InstructionOperand]
    by (simp add: max_instruction_defs)
qed

text \<open>
  The claim as the spec words it, "changing any single field of that instruction makes
  IsVectorOpDefaultNop() return false", fails: the freshly constructed kMax instruction
  against register 0 is a default no-op, and it still is one after its storage target
  alone is changed to a colour export (its scalar opcode kAdds is no default no-op), and
  after its predication flag alone is changed.
\<close>

theorem IsVectorOpDefaultNop_single_change_counterexample:
  "IsVectorOpDefaultNop (max_instruction InstructionStorageTarget.kRegister) \<and>
   storage_target (vector_and_constant_result (max_instruction InstructionStorageTarget.kRegister))
     = InstructionStorageTarget.kRegister \<and>
   IsVectorOpDefaultNop (max_instruction InstructionStorageTarget.kRegister
     \<lparr>vector_and_constant_result :=
        (vector_and_constant_result (max_instruction InstructionStorageTarget.kRegister))
          \<lparr>storage_target := kColor\<rparr>\<rparr>) \<and>
   \<not> is_predicated (max_instruction InstructionStorageTarget.kRegister) \<and>
   IsVectorOpDefaultNop (max_instruction InstructionStorageTarget.kRegister
     \<lparr>is_predicated := True\<rparr>)"
  by (simp add: IsVectorOpDefaultNop_iff IsScalarOpDefaultNop_def max_instruction_defs)

section \<open>Operands: component replication and lane comparison\<close>

lemma array4_get_Some:
  "i < 4 \<Longrightarrow> \<exists>x. array4_get arr i = Some x"
  by (cases arr) auto

lemma unat_min_word: "unat (min (x :: 32 word) y) = min (unat x) (unat y)"
  by (simp add: min_def word_le_nat_alt)

lemma GetComponent_index:
  assumes "component_count a \<noteq> 0"
  shows "GetComponent a i =
    array4_get (InstructionOperand.components a) (min (unat i) (unat (component_count a) - 1))"
  using assms by (simp add: GetComponent_def unat_min_word unat_minus_one)

text \<open>
  Claim C7. For every InstructionOperand with component_count = n where 1 \<le> n \<le> 4, and
  every index i (in 0..3, and beyond), GetComponent(i) returns components[min(i, n-1)],
  a read inside the declared components; hence for every i \<ge> n-1, GetComponent(i) equals
  GetComponent(n-1): the rightmost declared component is replicated, never indexed past
  or wrapped around.
\<close>

theorem GetComponent_replicates_last:
  assumes "1 \<le> component_count a" and "component_count a \<le> 4"
  shows "GetComponent a i =
      array4_get (InstructionOperand.components a) (min (unat i) (unat (component_count a) - 1)) \<and>
    GetComponent a i \<noteq> None \<and>
    min (unat i) (unat (component_count a) - 1) < unat (component_count a) \<and>
    (component_count a - 1 \<le> i \<longrightarrow> GetComponent a i = GetComponent a (component_count a - 1))"
proof -
  from assms(1) have nz: "component_count a \<noteq> 0" by auto
  then have pos: "0 < unat (component_count a)" by (simp add: unat_gt_0)
  from assms(2) have le: "unat (component_count a) \<le> 4" by (simp add: word_le_nat_alt)
  have idx: "GetComponent a j =
      array4_get (InstructionOperand.components a) (min (unat j) (unat (component_count a) - 1))"
    for j by (rule GetComponent_index [OF nz])
  have "min (unat i) (unat (component_count a) - 1) < 4" using pos le by simp
  from array4_get_Some [OF this] have some: "GetComponent a i \<noteq> None"
    unfolding idx by (metis option.distinct(1))
  have rep: "GetComponent a i = GetComponent a (component_count a - 1)"
    if "component_count a - 1 \<le> i"
  proof -
    from that have "unat (component_count a) - 1 \<le> unat i"
      using nz by (simp add: word_le_nat_alt unat_minus_one)
    then show ?thesis using nz by (simp add: idx unat_minus_one min_def)
  qed
  show ?thesis using idx some rep pos by simp
qed

theorem GetComponent_replicates_last_witness:
  "(1 :: 32 word) \<le> component_count two_component_operand \<and>
   component_count two_component_operand \<le> 4 \<and>
   GetComponent two_component_operand 0 = Some kW \<and>
   GetComponent two_component_operand 1 = Some kZ \<and>
   GetComponent two_component_operand 2 = Some kZ \<and>
   GetComponent two_component_operand 3 = Some kZ"
  using GetComponent_replicates_last [of two_component_operand 0]
    GetComponent_replicates_last [of two_component_operand 1]
    GetComponent_replicates_last [of two_component_operand 2]
    GetComponent_replicates_last [of two_component_operand 3]
  by (simp add: two_component_operand_def default_InstructionOperand_def)

lemma GetComponent_lane_Some:
  assumes "i < 4"
  shows "\<exists>x. GetComponent a (of_nat i) = Some x"
proof -
  have "unat (of_nat i :: 32 word) = i"
    using assms by (simp add: unat_of_nat)
  then have "unat (min (of_nat i) (component_count a - 1)) < 4"
    using assms by (simp add: unat_min_word)
  then show ?thesis
    unfolding GetComponent_def by (rule array4_get_Some)
qed

lemma GetAbsoluteIdenticalComponents_loop_unrolled:
  assumes "GetComponent a 0 = Some x0" "GetComponent b 0 = Some y0"
    and "GetComponent a 1 = Some x1" "GetComponent b 1 = Some y1"
    and "GetComponent a 2 = Some x2" "GetComponent b 2 = Some y2"
    and "GetComponent a 3 = Some x3" "GetComponent b 3 = Some y3"
  shows "GetAbsoluteIdenticalComponents_loop a b 0 0 =
    Some (of_bool (x0 = y0) OR push_bit 1 (of_bool (x1 = y1)) OR
          push_bit 2 (of_bool (x2 = y2)) OR push_bit 3 (of_bool (x3 = y3)))"
  using assms by (simp add: GetAbsoluteIdenticalComponents_loop.simps or.assoc)

lemma bit_lane:
  "k < 32 \<Longrightarrow> bit (push_bit k (of_bool p) :: 32 word) n \<longleftrightarrow> p \<and> n = k"
  by (cases p) (auto simp: bit_exp_iff)

lemma lanes_lt_4: "n < 4 \<longleftrightarrow> n = 0 \<or> n = 1 \<or> n = 2 \<or> n = (3::nat)"
  by arith

lemma GetAbsoluteIdenticalComponents_loop_bits:
  "\<exists>m. GetAbsoluteIdenticalComponents_loop a b 0 0 = Some m \<and>
       (\<forall>n. bit m n \<longleftrightarrow> n < 4 \<and> GetComponent a (of_nat n) = GetComponent b (of_nat n))"
proof -
  obtain x0 y0 x1 y1 x2 y2 x3 y3 where c:
    "GetComponent a 0 = Some x0" "GetComponent b 0 = Some y0"
    "GetComponent a 1 = Some x1" "GetComponent b 1 = Some y1"
    "GetComponent a 2 = Some x2" "GetComponent b 2 = Some y2"
    "GetComponent a 3 = Some x3" "GetComponent b 3 = Some y3"
    using GetComponent_lane_Some [of 0 a] GetComponent_lane_Some [of 0 b]
      GetComponent_lane_Some [of 1 a] GetComponent_lane_Some [of 1 b]
      GetComponent_lane_Some [of 2 a] GetComponent_lane_Some [of 2 b]
      GetComponent_lane_Some [of 3 a] GetComponent_lane_Some [of 3 b]
    by auto
  let ?m = "of_bool (x0 = y0) OR push_bit 1 (of_bool (x1 = y1)) OR
          push_bit 2 (of_bool (x2 = y2)) OR push_bit 3 (of_bool (x3 = y3)) :: 32 word"
  have "bit ?m n \<longleftrightarrow>
      (x0 = y0 \<and> n = 0) \<or> (x1 = y1 \<and> n = 1) \<or> (x2 = y2 \<and> n = 2) \<or> (x3 = y3 \<and> n = 3)" for n
    using bit_lane [of 0 "x0 = y0" n] bit_lane [of 1 "x1 = y1" n]
      bit_lane [of 2 "x2 = y2" n] bit_lane [of 3 "x3 = y3" n]
    by (simp only: bit_or_iff push_bit_0_id) simp
  moreover have "n < 4 \<and> GetComponent a (of_nat n) = GetComponent b (of_nat n) \<longleftrightarrow>
      (x0 = y0 \<and> n = 0) \<or> (x1 = y1 \<and> n = 1) \<or> (x2 = y2 \<and> n = 2) \<or> (x3 = y3 \<and> n = 3)" for n
    unfolding lanes_lt_4 using c by auto
  ultimately have "bit ?m n \<longleftrightarrow>
      n < 4 \<and> GetComponent a (of_nat n) = GetComponent b (of_nat n)" for n
    by simp
  then show ?thesis
    using GetAbsoluteIdenticalComponents_loop_unrolled [OF c] by blast
qed


lemma GetComponent_standard:
  assumes "InstructionOperand_IsStandardSwizzle a"
  shows "GetComponent a 0 = Some kX" "GetComponent a 1 = Some kY"
    "GetComponent a 2 = Some kZ" "GetComponent a 3 = Some kW"
  using assms
  by (cases "InstructionOperand.components a";
      simp add: InstructionOperand_IsStandardSwizzle_def GetComponent_def split: if_splits)+

lemma GetAbsoluteIdenticalComponents_loop_standard:
  assumes "InstructionOperand_IsStandardSwizzle a" and "InstructionOperand_IsStandardSwizzle b"
  shows "GetAbsoluteIdenticalComponents_loop a b 0 0 = Some 15"
  using GetAbsoluteIdenticalComponents_loop_unrolled
    [OF GetComponent_standard(1) [OF assms(1)] GetComponent_standard(1) [OF assms(2)]
        GetComponent_standard(2) [OF assms(1)] GetComponent_standard(2) [OF assms(2)]
        GetComponent_standard(3) [OF assms(1)] GetComponent_standard(3) [OF assms(2)]
        GetComponent_standard(4) [OF assms(1)] GetComponent_standard(4) [OF assms(2)]]
  by simp

text \<open>
  Claim C9. For every pair of InstructionOperands with identical storage identity (source
  class, index, addressing mode) and standard swizzles on both sides that differ in the
  is_negated flag, GetIdenticalComponents returns 0 while GetAbsoluteIdenticalComponents
  returns the full 4-bit mask 0b1111. In general both functions return 0 when the storage
  identity differs, GetIdenticalComponents also returns 0 when the negate or
  absolute-value flags differ, and otherwise each returns the mask whose bit i is set
  exactly when i is in 0..3 and GetComponent(i) agrees on the two operands.
\<close>

theorem GetIdenticalComponents_lanes:
  "(storage_source a \<noteq> storage_source b \<or>
    InstructionOperand.storage_index a \<noteq> InstructionOperand.storage_index b \<or>
    InstructionOperand.storage_addressing_mode a \<noteq> InstructionOperand.storage_addressing_mode b
      \<longrightarrow> GetAbsoluteIdenticalComponents a b = Some 0 \<and> GetIdenticalComponents a b = Some 0) \<and>
   (is_negated a \<noteq> is_negated b \<or> is_absolute_value a \<noteq> is_absolute_value b
      \<longrightarrow> GetIdenticalComponents a b = Some 0) \<and>
   (storage_source a = storage_source b \<and>
    InstructionOperand.storage_index a = InstructionOperand.storage_index b \<and>
    InstructionOperand.storage_addressing_mode a = InstructionOperand.storage_addressing_mode b
      \<longrightarrow> (\<exists>m. GetAbsoluteIdenticalComponents a b = Some m \<and>
                (\<forall>i. bit m i \<longleftrightarrow>
                   i < 4 \<and> GetComponent a (of_nat i) = GetComponent b (of_nat i))) \<and>
          (is_negated a = is_negated b \<and> is_absolute_value a = is_absolute_value b
             \<longrightarrow> GetIdenticalComponents a b = GetAbsoluteIdenticalComponents a b)) \<and>
   (storage_source a = storage_source b \<and>
    InstructionOperand.storage_index a = InstructionOperand.storage_index b \<and>
    InstructionOperand.storage_addressing_mode a = InstructionOperand.storage_addressing_mode b \<and>
    InstructionOperand_IsStandardSwizzle a \<and> InstructionOperand_IsStandardSwizzle b \<and>
    is_negated a \<noteq> is_negated b
      \<longrightarrow> GetIdenticalComponents a b = Some 0 \<and> GetAbsoluteIdenticalComponents a b = Some 15)"
  using GetAbsoluteIdenticalComponents_loop_bits [of a b]
    GetAbsoluteIdenticalComponents_loop_standard [of a b]
  by (auto simp: GetAbsoluteIdenticalComponents_def GetIdenticalComponents_def)

theorem GetIdenticalComponents_lanes_witness:
  "storage_source default_InstructionOperand = storage_source negated_operand \<and>
   InstructionOperand.storage_index default_InstructionOperand =
     InstructionOperand.storage_index negated_operand \<and>
   InstructionOperand_IsStandardSwizzle default_InstructionOperand \<and>
   InstructionOperand_IsStandardSwizzle negated_operand \<and>
   is_negated default_InstructionOperand \<noteq> is_negated negated_operand \<and>
   GetIdenticalComponents default_InstructionOperand negated_operand = Some 0 \<and>
   GetAbsoluteIdenticalComponents default_InstructionOperand negated_operand = Some 15"
  using GetIdenticalComponents_lanes [of default_InstructionOperand negated_operand]
  by (simp add: negated_operand_def default_InstructionOperand_def
      InstructionOperand_IsStandardSwizzle_def)

text \<open>Two operands that agree on the lanes 0, 2 and 3 only.\<close>

lemma GetAbsoluteIdenticalComponents_xxzw:
  "GetAbsoluteIdenticalComponents default_InstructionOperand xxzw_operand = Some 13 \<and>
   GetIdenticalComponents default_InstructionOperand xxzw_operand = Some 13"
  by (simp add: GetAbsoluteIdenticalComponents_def GetIdenticalComponents_def
      GetAbsoluteIdenticalComponents_loop.simps GetComponent_def xxzw_operand_def
      default_InstructionOperand_def)

section \<open>Memory-export stream detection\<close>

lemma written_lane: "(w AND push_bit i 1 \<noteq> 0) = bit w i" for w :: "32 word"
  by (simp add: bit_iff_and_push_bit_not_eq_0)

lemma SwizzleSource_in_result:
  "SwizzleSource_value kX \<le> SwizzleSource_value c \<and> SwizzleSource_value c \<le> SwizzleSource_value kW
     \<longleftrightarrow> c \<in> {kX, kY, kZ, kW}"
  by (cases c) simp_all

lemma GetUsedResultComponents_loop_step:
  assumes "i < 4" and "array4_get (InstructionResult.components r) i = Some c"
  shows "GetUsedResultComponents_loop r w i u =
    GetUsedResultComponents_loop r w (i + 1) (u OR lane_bit w i c)"
proof -
  have "(if w AND push_bit i 1 \<noteq> 0 \<and>
            SwizzleSource_value kX \<le> SwizzleSource_value c \<and>
            SwizzleSource_value c \<le> SwizzleSource_value kW
         then u OR push_bit (unat (SwizzleSource_value c - SwizzleSource_value kX)) 1
         else u) = u OR lane_bit w i c"
    unfolding written_lane SwizzleSource_in_result lane_bit_def by auto
  then show ?thesis
    using assms by (subst GetUsedResultComponents_loop.simps) simp
qed

lemma GetUsedResultComponents_loop_end:
  "GetUsedResultComponents_loop r w 4 u = Some u"
  by (subst GetUsedResultComponents_loop.simps) simp

lemma GetUsedResultComponents_unrolled:
  assumes "InstructionResult.components r = Array4 c0 c1 c2 c3"
  shows "GetUsedResultComponents r =
    Some (lane_bit (GetUsedWriteMask r) 0 c0 OR lane_bit (GetUsedWriteMask r) 1 c1 OR
          lane_bit (GetUsedWriteMask r) 2 c2 OR lane_bit (GetUsedWriteMask r) 3 c3)"
proof -
  have g: "array4_get (InstructionResult.components r) 0 = Some c0"
    "array4_get (InstructionResult.components r) 1 = Some c1"
    "array4_get (InstructionResult.components r) 2 = Some c2"
    "array4_get (InstructionResult.components r) 3 = Some c3"
    by (simp_all add: assms)
  let ?w = "GetUsedWriteMask r"
  have s0: "GetUsedResultComponents_loop r ?w 0 u =
      GetUsedResultComponents_loop r ?w 1 (u OR lane_bit ?w 0 c0)" for u
    using GetUsedResultComponents_loop_step [OF _ g(1), of ?w u] by simp
  have s1: "GetUsedResultComponents_loop r ?w 1 u =
      GetUsedResultComponents_loop r ?w 2 (u OR lane_bit ?w 1 c1)" for u
    using GetUsedResultComponents_loop_step [OF _ g(2), of ?w u] by (simp add: numeral_2_eq_2)
  have s2: "GetUsedResultComponents_loop r ?w 2 u =
      GetUsedResultComponents_loop r ?w 3 (u OR lane_bit ?w 2 c2)" for u
    using GetUsedResultComponents_loop_step [OF _ g(3), of ?w u] by simp
  have s3: "GetUsedResultComponents_loop r ?w 3 u =
      GetUsedResultComponents_loop r ?w 4 (u OR lane_bit ?w 3 c3)" for u
    using GetUsedResultComponents_loop_step [OF _ g(4), of ?w u] by simp
  show ?thesis
    unfolding GetUsedResultComponents_def s0 s1 s2 s3 GetUsedResultComponents_loop_end
    by (simp add: or.assoc)
qed

lemma bit_single:
  "n < 32 \<Longrightarrow> bit (push_bit n (1 :: 32 word)) k \<longleftrightarrow> k = n"
  by (auto simp: bit_exp_iff)

lemma SwizzleSource_value_small: "unat (SwizzleSource_value c) < 32"
  by (cases c) simp_all

lemma bit_lane_bit:
  "bit (lane_bit w i c) k \<longleftrightarrow> bit w i \<and> c \<in> {kX, kY, kZ, kW} \<and> k = unat (SwizzleSource_value c)"
  unfolding lane_bit_def
  by (simp only: bit_single [OF SwizzleSource_value_small] bit_0_eq split: if_split) auto

lemma ex_lane: "(\<exists>i<4. P i) \<longleftrightarrow> P 0 \<or> P 1 \<or> P 2 \<or> P (3::nat)"
  unfolding lanes_lt_4 by auto

lemma GetUsedResultComponents_bits:
  "\<exists>used. GetUsedResultComponents r = Some used \<and>
     (\<forall>k. bit used k \<longleftrightarrow>
        (\<exists>i<4. bit (GetUsedWriteMask r) i \<and>
           (\<exists>c \<in> {kX, kY, kZ, kW}. array4_get (InstructionResult.components r) i = Some c \<and>
              unat (SwizzleSource_value c) = k)))"
proof -
  obtain c0 c1 c2 c3 where c: "InstructionResult.components r = Array4 c0 c1 c2 c3"
    by (cases "InstructionResult.components r") auto
  show ?thesis
    unfolding GetUsedResultComponents_unrolled [OF c] ex_lane
    by (auto simp: c bit_or_iff bit_lane_bit)
qed

lemma word15_bits: "(u :: 32 word) = 15 \<longleftrightarrow> (\<forall>k. bit u k \<longleftrightarrow> k < 4)"
proof -
  have m: "(15 :: 32 word) = mask 4" by (simp add: mask_eq_exp_minus_1)
  show ?thesis
  proof
    assume "u = 15"
    then show "\<forall>k. bit u k \<longleftrightarrow> k < 4"
      unfolding m by (auto simp: bit_mask_iff)
  next
    assume "\<forall>k. bit u k \<longleftrightarrow> k < 4"
    then show "u = 15"
      unfolding m by (intro bit_eqI) (auto simp: bit_mask_iff)
  qed
qed

lemma GetUsedResultComponents_full_imp_written:
  assumes "GetUsedResultComponents r = Some 15" and "i < 4"
  shows "bit (GetUsedWriteMask r) i"
proof -
  obtain c0 c1 c2 c3 where c: "InstructionResult.components r = Array4 c0 c1 c2 c3"
    by (cases "InstructionResult.components r") auto
  from assms(1) have "\<forall>k. bit (lane_bit (GetUsedWriteMask r) 0 c0 OR lane_bit (GetUsedWriteMask r) 1 c1 OR
          lane_bit (GetUsedWriteMask r) 2 c2 OR lane_bit (GetUsedWriteMask r) 3 c3) k \<longleftrightarrow> k < 4"
    unfolding GetUsedResultComponents_unrolled [OF c] by (simp add: word15_bits)
  then have b: "\<And>k. k < 4 \<Longrightarrow>
      (bit (GetUsedWriteMask r) 0 \<and> k = unat (SwizzleSource_value c0)) \<or>
      (bit (GetUsedWriteMask r) 1 \<and> k = unat (SwizzleSource_value c1)) \<or>
      (bit (GetUsedWriteMask r) 2 \<and> k = unat (SwizzleSource_value c2)) \<or>
      (bit (GetUsedWriteMask r) 3 \<and> k = unat (SwizzleSource_value c3))"
    by (auto simp: bit_or_iff bit_lane_bit)
  from b [of 0] b [of 1] b [of 2] b [of 3] assms(2) show ?thesis
    unfolding lanes_lt_4 by auto
qed

lemma GetUsedResultComponents_Some:
  "\<exists>used. GetUsedResultComponents r = Some used"
  using GetUsedResultComponents_bits [of r] by blast

lemma lane_source:
  "c \<in> {kX, kY, kZ, kW} \<and> 0 = unat (SwizzleSource_value c) \<longleftrightarrow> c = kX"
  "c \<in> {kX, kY, kZ, kW} \<and> 1 = unat (SwizzleSource_value c) \<longleftrightarrow> c = kY"
  "c \<in> {kX, kY, kZ, kW} \<and> 2 = unat (SwizzleSource_value c) \<longleftrightarrow> c = kZ"
  "c \<in> {kX, kY, kZ, kW} \<and> 3 = unat (SwizzleSource_value c) \<longleftrightarrow> c = kW"
  by (cases c; simp)+

lemma GetUsedResultComponents_full_iff:
  "GetUsedResultComponents r = Some 15 \<longleftrightarrow>
     (\<forall>c \<in> {kX, kY, kZ, kW}. \<exists>i<4. bit (GetUsedWriteMask r) i \<and>
         array4_get (InstructionResult.components r) i = Some c)"
proof -
  obtain c0 c1 c2 c3 where c: "InstructionResult.components r = Array4 c0 c1 c2 c3"
    by (cases "InstructionResult.components r") auto
  let ?w = "GetUsedWriteMask r"
  let ?u = "lane_bit ?w 0 c0 OR lane_bit ?w 1 c1 OR lane_bit ?w 2 c2 OR lane_bit ?w 3 c3"
  have b: "bit ?u k \<longleftrightarrow>
      (bit ?w 0 \<and> c0 \<in> {kX, kY, kZ, kW} \<and> k = unat (SwizzleSource_value c0)) \<or>
      (bit ?w 1 \<and> c1 \<in> {kX, kY, kZ, kW} \<and> k = unat (SwizzleSource_value c1)) \<or>
      (bit ?w 2 \<and> c2 \<in> {kX, kY, kZ, kW} \<and> k = unat (SwizzleSource_value c2)) \<or>
      (bit ?w 3 \<and> c3 \<in> {kX, kY, kZ, kW} \<and> k = unat (SwizzleSource_value c3))" for k
    by (simp only: bit_or_iff bit_lane_bit)
  have "?u = 15 \<longleftrightarrow> bit ?u 0 \<and> bit ?u 1 \<and> bit ?u 2 \<and> bit ?u 3"
  proof
    assume "?u = 15" then show "bit ?u 0 \<and> bit ?u 1 \<and> bit ?u 2 \<and> bit ?u 3"
      by (simp only: word15_bits) simp
  next
    assume a: "bit ?u 0 \<and> bit ?u 1 \<and> bit ?u 2 \<and> bit ?u 3"
    have "bit ?u k \<longleftrightarrow> k < 4" for k
    proof
      assume "bit ?u k"
      then have "\<exists>c \<in> {kX, kY, kZ, kW}. k = unat (SwizzleSource_value c)"
        unfolding b by blast
      then show "k < 4" by auto
    next
      assume "k < 4"
      then show "bit ?u k" using a unfolding lanes_lt_4 by auto
    qed
    then show "?u = 15" by (simp only: word15_bits) simp
  qed
  also have "\<dots> \<longleftrightarrow> (\<forall>c \<in> {kX, kY, kZ, kW}. \<exists>i<4. bit ?w i \<and>
         array4_get (InstructionResult.components r) i = Some c)"
    unfolding b lane_source ex_lane c by auto
  finally show ?thesis
    unfolding GetUsedResultComponents_unrolled [OF c] by simp
qed


lemmas memexport_instruction_defs =
  memexport_instruction_def default_ParsedAluInstruction_def default_InstructionResult_def
  default_InstructionOperand_def

text \<open>
  Claim C6, as the code has it. For every ALU instruction, GetMemExportStreamConstant()
  returns the storage index of the third vector operand if the vector result targets the
  export-address storage target, the vector opcode is the multiply-add opcode kMad,
  GetUsedResultComponents() of the result is 0b1111, the result is not clamped, and the
  third vector operand is a statically-addressed float constant with standard swizzle and
  no negate or absolute-value modifier; in every other case it returns UINT32_MAX, in
  particular for every instruction whose vector opcode is not kMad.
  GetUsedResultComponents() is 0b1111 exactly when each of the components x, y, z, w of
  the operation's result is the swizzle source of some written lane; then all four lanes
  are written, and none of them takes a constant or a component another lane takes.
\<close>

theorem GetMemExportStreamConstant_cases:
  "(\<exists>used. GetUsedResultComponents (vector_and_constant_result instr) = Some used \<and>
      GetMemExportStreamConstant instr =
        Some (if storage_target (vector_and_constant_result instr) = kExportAddress \<and>
                 vector_opcode instr = kMad \<and>
                 used = 15 \<and>
                 \<not> is_clamped (vector_and_constant_result instr) \<and>
                 storage_source (op2 (vector_operands instr)) = kConstantFloat \<and>
                 InstructionOperand.storage_addressing_mode (op2 (vector_operands instr)) = kStatic \<and>
                 InstructionOperand_IsStandardSwizzle (op2 (vector_operands instr)) \<and>
                 \<not> is_negated (op2 (vector_operands instr)) \<and>
                 \<not> is_absolute_value (op2 (vector_operands instr))
              then InstructionOperand.storage_index (op2 (vector_operands instr))
              else UINT32_MAX) \<and>
      (used = 15 \<longleftrightarrow>
         (\<forall>c \<in> {kX, kY, kZ, kW}. \<exists>i<4.
            bit (GetUsedWriteMask (vector_and_constant_result instr)) i \<and>
            array4_get (InstructionResult.components (vector_and_constant_result instr)) i
              = Some c)) \<and>
      (used = 15 \<longrightarrow>
         (\<forall>i<4. bit (GetUsedWriteMask (vector_and_constant_result instr)) i))) \<and>
   (vector_opcode instr \<noteq> kMad \<longrightarrow> GetMemExportStreamConstant instr = Some UINT32_MAX)"
proof -
  let ?r = "vector_and_constant_result instr"
  obtain used where u: "GetUsedResultComponents ?r = Some used"
    using GetUsedResultComponents_Some by blast
  have full: "used = 15 \<longleftrightarrow>
      (\<forall>c \<in> {kX, kY, kZ, kW}. \<exists>i<4. bit (GetUsedWriteMask ?r) i \<and>
         array4_get (InstructionResult.components ?r) i = Some c)"
    using GetUsedResultComponents_full_iff [of ?r] by (simp only: u option.inject)
  have written: "\<forall>i<4. bit (GetUsedWriteMask ?r) i" if "used = 15"
    using GetUsedResultComponents_full_imp_written [of ?r] u that by simp
  have not_mad: "GetMemExportStreamConstant instr = Some UINT32_MAX"
    if "vector_opcode instr \<noteq> kMad"
    using that by (simp add: GetMemExportStreamConstant_def)
  have val: "GetMemExportStreamConstant instr =
        Some (if storage_target ?r = kExportAddress \<and>
                 vector_opcode instr = kMad \<and>
                 used = 15 \<and>
                 \<not> is_clamped ?r \<and>
                 storage_source (op2 (vector_operands instr)) = kConstantFloat \<and>
                 InstructionOperand.storage_addressing_mode (op2 (vector_operands instr)) = kStatic \<and>
                 InstructionOperand_IsStandardSwizzle (op2 (vector_operands instr)) \<and>
                 \<not> is_negated (op2 (vector_operands instr)) \<and>
                 \<not> is_absolute_value (op2 (vector_operands instr))
              then InstructionOperand.storage_index (op2 (vector_operands instr))
              else UINT32_MAX)"
    by (simp add: GetMemExportStreamConstant_def u)
  show ?thesis
    using u val full written not_mad by blast
qed

lemma GetUsedResultComponents_memexport:
  "GetUsedResultComponents (vector_and_constant_result
      (memexport_instruction (Array4 kX kY kZ kW))) = Some 15"
  "GetUsedResultComponents (vector_and_constant_result
      (memexport_instruction (Array4 kX kX kX kX))) = Some 1"
  "GetUsedResultComponents (vector_and_constant_result
      (memexport_instruction (Array4 kX kY kZ k1))) = Some 7"
  by (simp_all add: GetUsedResultComponents_unrolled [of _ kX kY kZ kW]
      GetUsedResultComponents_unrolled [of _ kX kX kX kX]
      GetUsedResultComponents_unrolled [of _ kX kY kZ k1]
      lane_bit_def GetUsedWriteMask_def memexport_instruction_defs)

theorem GetMemExportStreamConstant_cases_witness:
  "GetMemExportStreamConstant (memexport_instruction (Array4 kX kY kZ kW)) = Some 7 \<and>
   GetMemExportStreamConstant
     (memexport_instruction (Array4 kX kY kZ kW) \<lparr>vector_opcode := kMax\<rparr>) = Some UINT32_MAX"
  using GetMemExportStreamConstant_cases [of "memexport_instruction (Array4 kX kY kZ kW)"]
    GetMemExportStreamConstant_cases
      [of "memexport_instruction (Array4 kX kY kZ kW) \<lparr>vector_opcode := kMax\<rparr>"]
    GetUsedResultComponents_memexport(1)
  by (simp add: memexport_instruction_defs InstructionOperand_IsStandardSwizzle_def)

text \<open>
  With "all 4 result lanes are written" in place of the test on GetUsedResultComponents()
  the claim fails: a multiply-add to the export address with the write mask 0b1111, not
  clamped, whose third operand is the float constant 7, is not recognised when its result
  swizzle is xxxx, nor when it is xyz1.
\<close>

theorem GetMemExportStreamConstant_all_lanes_counterexample:
  "storage_target (vector_and_constant_result (memexport_instruction (Array4 kX kX kX kX)))
     = kExportAddress \<and>
   vector_opcode (memexport_instruction (Array4 kX kX kX kX)) = kMad \<and>
   GetUsedWriteMask (vector_and_constant_result (memexport_instruction (Array4 kX kX kX kX)))
     = 15 \<and>
   \<not> is_clamped (vector_and_constant_result (memexport_instruction (Array4 kX kX kX kX))) \<and>
   storage_source (op2 (vector_operands (memexport_instruction (Array4 kX kX kX kX))))
     = kConstantFloat \<and>
   InstructionOperand.storage_addressing_mode
     (op2 (vector_operands (memexport_instruction (Array4 kX kX kX kX)))) = kStatic \<and>
   InstructionOperand_IsStandardSwizzle
     (op2 (vector_operands (memexport_instruction (Array4 kX kX kX kX)))) \<and>
   \<not> is_negated (op2 (vector_operands (memexport_instruction (Array4 kX kX kX kX)))) \<and>
   \<not> is_absolute_value (op2 (vector_operands (memexport_instruction (Array4 kX kX kX kX)))) \<and>
   InstructionOperand.storage_index
     (op2 (vector_operands (memexport_instruction (Array4 kX kX kX kX)))) = 7 \<and>
   GetMemExportStreamConstant (memexport_instruction (Array4 kX kX kX kX)) = Some UINT32_MAX \<and>
   GetUsedWriteMask (vector_and_constant_result (memexport_instruction (Array4 kX kY kZ k1)))
     = 15 \<and>
   GetMemExportStreamConstant (memexport_instruction (Array4 kX kY kZ k1)) = Some UINT32_MAX \<and>
   UINT32_MAX \<noteq> 7"
  using GetUsedResultComponents_memexport
  by (simp add: GetMemExportStreamConstant_def GetUsedWriteMask_def UINT32_MAX_def
      memexport_instruction_defs InstructionOperand_IsStandardSwizzle_def)

section \<open>Packed float constant indices\<close>

lemma scenario_values:
  "GetPackedFloatConstantIndex (scenario_map False) 3 = Some 0"
  "GetPackedFloatConstantIndex (scenario_map False) 5 = Some 1"
  "GetPackedFloatConstantIndex (scenario_map False) 130 = Some 2"
  "GetPackedFloatConstantIndex (scenario_map False) 4 = Some UINT32_MAX"
  by code_simp+

lemma bit_count_card: "bit_count v = of_nat (card {n. n < 64 \<and> bit v n})"
proof -
  have "length (filter (bit v) [0..<64]) = card ({n. bit v n} \<inter> set [0..<64])"
    by (rule distinct_length_filter) simp
  also have "{n. bit v n} \<inter> set [0..<64] = {n. n < 64 \<and> bit v n}"
    by auto
  finally show ?thesis by (simp add: bit_count_def)
qed

lemma bit_count_below:
  assumes "r < 64"
  shows "bit_count (v AND (push_bit r 1 - 1)) = of_nat (card {n. n < r \<and> bit v n})"
proof -
  have "push_bit r (1 :: 64 word) - 1 = mask r"
    by (simp add: mask_eq_exp_minus_1)
  moreover have "{n. n < 64 \<and> bit (v AND mask r) n} = {n. n < r \<and> bit v n}"
    using assms by (auto simp: bit_and_iff bit_mask_iff)
  ultimately show ?thesis by (simp add: bit_count_card)
qed


lemma float_bit_set_block:
  assumes "array4_get (float_bitmap m) k = Some blk" and "n < 64"
  shows "float_bit_set m (64 * k + n) = bit blk n"
  using assms by (simp add: float_bit_set_def)

lemma card_block:
  assumes "array4_get (float_bitmap m) k = Some blk" and "r \<le> 64"
  shows "card {j. 64 * k \<le> j \<and> j < 64 * k + r \<and> float_bit_set m j} =
    card {n. n < r \<and> bit blk n}"
proof -
  have "{j. 64 * k \<le> j \<and> j < 64 * k + r \<and> float_bit_set m j} =
      (\<lambda>n. 64 * k + n) ` {n. n < r \<and> bit blk n}" (is "?A = ?f ` ?B")
  proof (intro set_eqI iffI)
    fix j assume "j \<in> ?A"
    then have j: "64 * k \<le> j" "j < 64 * k + r" "float_bit_set m j" by auto
    then have "j - 64 * k < r" "j = 64 * k + (j - 64 * k)" by auto
    moreover from this j assms have "bit blk (j - 64 * k)"
      using float_bit_set_block [OF assms(1), of "j - 64 * k"] by simp
    ultimately show "j \<in> ?f ` ?B" by blast
  next
    fix j assume "j \<in> ?f ` ?B"
    then obtain n where n: "j = 64 * k + n" "n < r" "bit blk n" by auto
    then show "j \<in> ?A"
      using float_bit_set_block [OF assms(1), of n] assms(2) by simp
  qed
  moreover have "inj_on ?f ?B" by (simp add: inj_on_def)
  ultimately show ?thesis by (simp add: card_image)
qed

lemma card_split:
  fixes a b c :: nat
  assumes "a \<le> b" and "b \<le> c"
  shows "card {j. a \<le> j \<and> j < c \<and> P j} =
    card {j. a \<le> j \<and> j < b \<and> P j} + card {j. b \<le> j \<and> j < c \<and> P j}"
proof -
  have "{j. a \<le> j \<and> j < c \<and> P j} =
      {j. a \<le> j \<and> j < b \<and> P j} \<union> {j. b \<le> j \<and> j < c \<and> P j}"
    using assms by auto
  moreover have "{j. a \<le> j \<and> j < b \<and> P j} \<inter> {j. b \<le> j \<and> j < c \<and> P j} = {}"
    by auto
  moreover have "finite {j. a \<le> j \<and> j < b \<and> P j}" "finite {j. b \<le> j \<and> j < c \<and> P j}"
    by simp_all
  ultimately show ?thesis by (simp add: card_Un_disjoint)
qed

lemma GetPackedFloatConstantIndex_loop_sum:
  assumes "i \<le> unat b" and "unat b \<le> 4"
  shows "GetPackedFloatConstantIndex_loop m b i offset =
    Some (offset + of_nat (card {j. 64 * i \<le> j \<and> j < 64 * unat b \<and> float_bit_set m j}))"
  using assms
proof (induction "unat b - i" arbitrary: i offset)
  case 0
  then have i: "i = unat b" by simp
  have "{j. 64 * unat b \<le> j \<and> j < 64 * unat b \<and> float_bit_set m j} = {}" by auto
  then have e: "card {j. 64 * unat b \<le> j \<and> j < 64 * unat b \<and> float_bit_set m j} = 0"
    by (simp only: card.empty)
  show ?case
    unfolding i by (subst GetPackedFloatConstantIndex_loop.simps) (simp only: e, simp)
next
  case (Suc n)
  then have lt: "i < unat b" by simp
  with Suc.prems have "i < 4" by simp
  from array4_get_Some [OF this, of "float_bitmap m"]
  obtain blk where blk: "array4_get (float_bitmap m) i = Some blk" ..
  have step: "GetPackedFloatConstantIndex_loop m b i offset =
      GetPackedFloatConstantIndex_loop m b (i + 1) (offset + bit_count blk)"
    using lt blk by (subst GetPackedFloatConstantIndex_loop.simps) simp
  have ih: "GetPackedFloatConstantIndex_loop m b (i + 1) (offset + bit_count blk) =
      Some (offset + bit_count blk +
        of_nat (card {j. 64 * (i + 1) \<le> j \<and> j < 64 * unat b \<and> float_bit_set m j}))"
  proof -
    from Suc.hyps(2) have n: "n = unat b - (i + 1)" by linarith
    from lt have le: "i + 1 \<le> unat b" by linarith
    show ?thesis by (rule Suc.hyps(1) [OF n le Suc.prems(2)])
  qed
  have "bit_count blk = of_nat (card {j. 64 * i \<le> j \<and> j < 64 * i + 64 \<and> float_bit_set m j})"
    using card_block [OF blk, of 64] by (simp add: bit_count_card)
  moreover have "card {j. 64 * i \<le> j \<and> j < 64 * unat b \<and> float_bit_set m j} =
      card {j. 64 * i \<le> j \<and> j < 64 * i + 64 \<and> float_bit_set m j} +
      card {j. 64 * i + 64 \<le> j \<and> j < 64 * unat b \<and> float_bit_set m j}"
  proof -
    have "64 * i \<le> 64 * i + 64" by simp
    moreover from lt have "64 * i + 64 \<le> 64 * unat b" by linarith
    ultimately show ?thesis by (rule card_split)
  qed
  ultimately show ?case
    unfolding step ih by (simp only: of_nat_add add.assoc Suc_eq_plus1 distrib_left mult_1_right)
qed


lemma GetPackedFloatConstantIndex_static:
  assumes "\<not> float_dynamic_addressing m" and "c < 256"
  shows "GetPackedFloatConstantIndex m c =
    Some (if float_bit_set m (unat c) then of_nat (set_bits_below m (unat c)) else UINT32_MAX)"
proof -
  let ?b = "unat c div 64" and ?r = "unat c mod 64"
  from assms(2) have uc: "unat c < 256" by (simp add: word_less_nat_alt)
  have ub: "unat (c div 64) = ?b" by (simp add: unat_div)
  have ur: "unat (c mod 64) = ?r" by (simp add: unat_mod)
  from uc have b4: "?b < 4" by simp
  have r64: "?r < 64" by simp
  from array4_get_Some [OF b4, of "float_bitmap m"]
  obtain blk where blk: "array4_get (float_bitmap m) ?b = Some blk" ..
  have test: "(blk AND push_bit ?r 1 \<noteq> 0) = float_bit_set m (unat c)"
    by (simp add: float_bit_set_def blk bit_iff_and_push_bit_not_eq_0)
  have loop: "GetPackedFloatConstantIndex_loop m (c div 64) 0 0 =
      Some (of_nat (card {j. 64 * 0 \<le> j \<and> j < 64 * ?b \<and> float_bit_set m j}))"
    using GetPackedFloatConstantIndex_loop_sum [of 0 "c div 64" m 0] b4 by (simp add: ub)
  have last: "bit_count (blk AND (push_bit ?r 1 - 1)) =
      of_nat (card {j. 64 * ?b \<le> j \<and> j < 64 * ?b + ?r \<and> float_bit_set m j})"
    using card_block [OF blk, of ?r] bit_count_below [OF r64, of blk] by simp
  have "card {j. 64 * 0 \<le> j \<and> j < 64 * ?b + ?r \<and> float_bit_set m j} =
      card {j. 64 * 0 \<le> j \<and> j < 64 * ?b \<and> float_bit_set m j} +
      card {j. 64 * ?b \<le> j \<and> j < 64 * ?b + ?r \<and> float_bit_set m j}"
    by (rule card_split) simp_all
  then have total: "set_bits_below m (unat c) =
      card {j. 64 * 0 \<le> j \<and> j < 64 * ?b \<and> float_bit_set m j} +
      card {j. 64 * ?b \<le> j \<and> j < 64 * ?b + ?r \<and> float_bit_set m j}"
    by (simp add: set_bits_below_def)
  have nge: "\<not> 256 \<le> c" using assms(2) by simp
  have unfolded: "GetPackedFloatConstantIndex m c =
      (if \<not> (blk AND push_bit ?r 1 \<noteq> 0) then Some UINT32_MAX
       else (case GetPackedFloatConstantIndex_loop m (c div 64) 0 0 of
               None \<Rightarrow> None
             | Some offset \<Rightarrow> Some (offset + bit_count (blk AND (push_bit ?r 1 - 1)))))"
    unfolding GetPackedFloatConstantIndex_def Let_def ub ur
    by (simp only: nge assms(1) if_False blk option.case)
  show ?thesis
  proof (cases "float_bit_set m (unat c)")
    case True
    then have "blk AND push_bit ?r 1 \<noteq> 0" using test by simp
    then have "GetPackedFloatConstantIndex m c =
        Some (of_nat (card {j. 64 * 0 \<le> j \<and> j < 64 * ?b \<and> float_bit_set m j}) +
              of_nat (card {j. 64 * ?b \<le> j \<and> j < 64 * ?b + ?r \<and> float_bit_set m j}))"
      unfolding unfolded loop last by simp
    then show ?thesis
      using True by (simp only: total of_nat_add if_True)
  next
    case False
    then have "\<not> (blk AND push_bit ?r 1 \<noteq> 0)" using test by simp
    then show ?thesis
      unfolding unfolded using False by simp
  qed
qed


lemma rank_bij_betw:
  fixes S :: "nat set"
  assumes "finite S"
  shows "bij_betw (\<lambda>c. card {j \<in> S. j < c}) S {0..<card S}"
proof -
  let ?rank = "\<lambda>c. card {j \<in> S. j < c}"
  have mono: "?rank a < ?rank b" if "a \<in> S" "a < b" for a b
  proof (rule psubset_card_mono)
    show "finite {j \<in> S. j < b}" using assms by simp
    show "{j \<in> S. j < a} \<subset> {j \<in> S. j < b}" using that by auto
  qed
  have inj: "inj_on ?rank S"
  proof (rule inj_onI)
    fix a b assume "a \<in> S" "b \<in> S" "?rank a = ?rank b"
    then show "a = b"
      using mono [of a b] mono [of b a] by (cases a b rule: linorder_cases) auto
  qed
  have bound: "?rank c < card S" if "c \<in> S" for c
  proof (rule psubset_card_mono)
    show "finite S" by (rule assms)
    show "{j \<in> S. j < c} \<subset> S" using that by auto
  qed
  then have sub: "?rank ` S \<subseteq> {0..<card S}" by auto
  have "card (?rank ` S) = card S" using inj by (rule card_image)
  then have "?rank ` S = {0..<card S}"
    using sub by (intro card_subset_eq) simp_all
  with inj show ?thesis by (simp add: bij_betw_def)
qed

lemma float_bit_set_lt: "float_bit_set m j \<Longrightarrow> j < 256"
  by (cases "float_bitmap m") (auto simp: float_bit_set_def split: if_splits)

lemma used_float_constants_finite: "finite (used_float_constants m)"
  by (simp add: used_float_constants_def)

lemma used_float_constants_card: "card (used_float_constants m) \<le> 256"
proof -
  have "used_float_constants m \<subseteq> {..<256}" by (auto simp: used_float_constants_def)
  then have "card (used_float_constants m) \<le> card {..<256::nat}"
    by (intro card_mono) simp_all
  then show ?thesis by simp
qed

lemma set_bits_below_rank:
  "set_bits_below m c = card {j \<in> used_float_constants m. j < c}"
proof -
  have "{j. j < c \<and> float_bit_set m j} = {j \<in> used_float_constants m. j < c}"
    using float_bit_set_lt by (auto simp: used_float_constants_def)
  then show ?thesis by (simp add: set_bits_below_def)
qed

lemma set_bits_below_bij:
  "bij_betw (set_bits_below m) (used_float_constants m) {0..<card (used_float_constants m)}"
  using rank_bij_betw [OF used_float_constants_finite, of m]
  by (simp add: set_bits_below_rank [abs_def])

lemma set_bits_below_less:
  "j \<in> used_float_constants m \<Longrightarrow> set_bits_below m j < card (used_float_constants m)"
  using set_bits_below_bij [of m] by (auto simp: bij_betw_def)

lemma GetPackedFloatConstantIndex_used:
  assumes "\<not> float_dynamic_addressing m" and "j \<in> used_float_constants m"
  shows "GetPackedFloatConstantIndex m (of_nat j) = Some (of_nat (set_bits_below m j))"
proof -
  from assms(2) have j: "j < 256" "float_bit_set m j"
    by (simp_all add: used_float_constants_def)
  then have u: "unat (of_nat j :: 32 word) = j" by (simp add: unat_of_nat)
  then have "(of_nat j :: 32 word) < 256" by (simp add: word_less_nat_alt j)
  from GetPackedFloatConstantIndex_static [OF assms(1) this] show ?thesis
    by (simp add: u j)
qed

lemma GetPackedFloatConstantIndex_bij:
  assumes "\<not> float_dynamic_addressing m"
  shows "bij_betw (GetPackedFloatConstantIndex m)
    (of_nat ` used_float_constants m)
    ((\<lambda>k. Some (of_nat k)) ` {0..<card (used_float_constants m)})"
proof -
  let ?S = "used_float_constants m"
  have img: "GetPackedFloatConstantIndex m ` (of_nat ` ?S) =
      (\<lambda>k. Some (of_nat k)) ` {0..<card ?S}"
  proof -
    have "GetPackedFloatConstantIndex m ` (of_nat ` ?S) =
        (\<lambda>j. Some (of_nat (set_bits_below m j))) ` ?S"
      using GetPackedFloatConstantIndex_used [OF assms] by (force simp: image_iff)
    also have "\<dots> = (\<lambda>k. Some (of_nat k)) ` (set_bits_below m ` ?S)"
      by (simp add: image_image)
    also have "set_bits_below m ` ?S = {0..<card ?S}"
      using set_bits_below_bij [of m] by (simp add: bij_betw_def)
    finally show ?thesis .
  qed
  have inj: "inj_on (GetPackedFloatConstantIndex m) (of_nat ` ?S)"
  proof (rule inj_onI)
    fix x y :: "32 word"
    assume "x \<in> of_nat ` ?S" "y \<in> of_nat ` ?S"
      and eq: "GetPackedFloatConstantIndex m x = GetPackedFloatConstantIndex m y"
    then obtain a b where ab: "a \<in> ?S" "b \<in> ?S" "x = of_nat a" "y = of_nat b" by auto
    from eq have w: "(of_nat (set_bits_below m a) :: 32 word) = of_nat (set_bits_below m b)"
      by (simp add: ab GetPackedFloatConstantIndex_used [OF assms])
    have small: "set_bits_below m a < 2 ^ 32" "set_bits_below m b < 2 ^ 32"
      using set_bits_below_less [OF ab(1)] set_bits_below_less [OF ab(2)]
        used_float_constants_card [of m] by simp_all
    from w have "unat (of_nat (set_bits_below m a) :: 32 word) =
        unat (of_nat (set_bits_below m b) :: 32 word)"
      by simp
    with small have "set_bits_below m a = set_bits_below m b"
      by (simp add: unat_of_nat)
    then have "a = b"
      using set_bits_below_bij [of m] ab(1,2) by (auto simp: bij_betw_def inj_on_def)
    then show "x = y" by (simp add: ab)
  qed
  from inj img show ?thesis by (simp add: bij_betw_def)
qed


lemma bit_40: "bit (40 :: 64 word) n \<longleftrightarrow> n = 3 \<or> n = 5"
proof -
  have "(40 :: 64 word) = push_bit 3 1 OR push_bit 5 1" by simp
  then show ?thesis
    by (simp only: bit_or_iff bit_push_bit_iff bit_1_iff) auto
qed

lemma bit_4: "bit (4 :: 64 word) n \<longleftrightarrow> n = 2"
proof -
  have "(4 :: 64 word) = push_bit 2 1" by simp
  then show ?thesis
    by (simp only: bit_push_bit_iff bit_1_iff) auto
qed

lemma scenario_block:
  "(case array4_get (Array4 (40 :: 64 word) 0 4 0) k of None \<Rightarrow> False | Some blk \<Rightarrow> bit blk n)
     \<longleftrightarrow> (k = 0 \<and> bit (40 :: 64 word) n) \<or> (k = 2 \<and> bit (4 :: 64 word) n)"
  by (simp del: bit_numeral_simps bit_numeral_iff)

lemma float_bit_set_scenario:
  "float_bit_set (scenario_map dynamic) j \<longleftrightarrow> j = 3 \<or> j = 5 \<or> j = 130"
proof -
  have f: "float_bit_set (scenario_map dynamic) j \<longleftrightarrow>
      (j div 64 = 0 \<and> (j mod 64 = 3 \<or> j mod 64 = 5)) \<or>
      (j div 64 = 2 \<and> j mod 64 = 2)"
    unfolding float_bit_set_def scenario_map_def
    by (simp only: ConstantRegisterMap.simps scenario_block bit_40 bit_4)
  have e: "j = 64 * (j div 64) + j mod 64" by simp
  show ?thesis
  proof
    assume "float_bit_set (scenario_map dynamic) j"
    then have "(j div 64 = 0 \<and> j mod 64 = 3) \<or> (j div 64 = 0 \<and> j mod 64 = 5) \<or>
        (j div 64 = 2 \<and> j mod 64 = 2)"
      by (simp only: f conj_disj_distribL disj_assoc)
    then show "j = 3 \<or> j = 5 \<or> j = 130"
    proof (elim disjE conjE)
      assume "j div 64 = 0" "j mod 64 = 3"
      with e have "j = 64 * 0 + 3" by (simp only:)
      then show ?thesis by simp
    next
      assume "j div 64 = 0" "j mod 64 = 5"
      with e have "j = 64 * 0 + 5" by (simp only:)
      then show ?thesis by simp
    next
      assume "j div 64 = 2" "j mod 64 = 2"
      with e have "j = 64 * 2 + 2" by (simp only:)
      then show ?thesis by simp
    qed
  next
    assume "j = 3 \<or> j = 5 \<or> j = 130"
    then show "float_bit_set (scenario_map dynamic) j"
      unfolding f by (elim disjE) simp_all
  qed
qed

lemma used_float_constants_scenario:
  "used_float_constants (scenario_map dynamic) = {3, 5, 130}"
  by (auto simp: used_float_constants_def float_bit_set_scenario)

text \<open>
  Claim C1. For every ConstantRegisterMap with float_dynamic_addressing = false,
  GetPackedFloatConstantIndex is a bijection from the indices whose bit is set in the
  256-bit float usage bitmap onto the contiguous range [0, popcount): for every index in
  [0,256) whose bit is set, the result is the number of set bits at strictly lower indices
  (\<open>set_bits_below\<close>), and for every index in [0,256) whose bit is unset the result is
  UINT32_MAX. In particular, for the bitmap with exactly the bits 3, 5 and 130 set,
  the packed index of 3 is 0, of 5 is 1, of 130 is 2, and 4 is not found.
\<close>

theorem GetPackedFloatConstantIndex_packing:
  "(\<not> float_dynamic_addressing m \<longrightarrow>
      (\<forall>c. c < 256 \<longrightarrow>
         GetPackedFloatConstantIndex m c =
           Some (if float_bit_set m (unat c) then of_nat (set_bits_below m (unat c))
                 else UINT32_MAX)) \<and>
      (\<forall>j \<in> used_float_constants m.
         GetPackedFloatConstantIndex m (of_nat j) = Some (of_nat (set_bits_below m j)) \<and>
         set_bits_below m j < card (used_float_constants m)) \<and>
      bij_betw (set_bits_below m) (used_float_constants m)
        {0..<card (used_float_constants m)} \<and>
      bij_betw (GetPackedFloatConstantIndex m) (of_nat ` used_float_constants m)
        ((\<lambda>k. Some (of_nat k)) ` {0..<card (used_float_constants m)})) \<and>
   card (used_float_constants m) \<le> 256 \<and>
   used_float_constants (scenario_map False) = {3, 5, 130} \<and>
   GetPackedFloatConstantIndex (scenario_map False) 3 = Some 0 \<and>
   GetPackedFloatConstantIndex (scenario_map False) 5 = Some 1 \<and>
   GetPackedFloatConstantIndex (scenario_map False) 130 = Some 2 \<and>
   GetPackedFloatConstantIndex (scenario_map False) 4 = Some UINT32_MAX"
  using GetPackedFloatConstantIndex_static [of m] GetPackedFloatConstantIndex_used [of m]
    set_bits_below_less [of _ m] set_bits_below_bij [of m] GetPackedFloatConstantIndex_bij [of m]
    used_float_constants_card [of m] used_float_constants_scenario [of False] scenario_values
  by blast

theorem GetPackedFloatConstantIndex_packing_witness:
  "\<not> float_dynamic_addressing (scenario_map False) \<and>
   130 \<in> used_float_constants (scenario_map False) \<and>
   GetPackedFloatConstantIndex (scenario_map False) 130 = Some 2 \<and>
   (of_nat (set_bits_below (scenario_map False) 130) :: 32 word) = 2 \<and>
   set_bits_below (scenario_map False) 130 < 3"
proof -
  have d: "\<not> float_dynamic_addressing (scenario_map False)"
    by (simp add: scenario_map_def)
  have u: "130 \<in> used_float_constants (scenario_map False)"
    by (simp add: used_float_constants_scenario)
  have c: "card (used_float_constants (scenario_map False)) = 3"
    by (simp add: used_float_constants_scenario)
  from GetPackedFloatConstantIndex_packing [of "scenario_map False"] d u c show ?thesis
    by auto
qed

text \<open>
  Claim C2, as the code has it. For every ConstantRegisterMap with
  float_dynamic_addressing = true, GetPackedFloatConstantIndex is the identity on every
  index 0 to 255, whatever the usage bitmap holds, so UINT32_MAX is never returned there;
  for an index of 256 or more it returns UINT32_MAX, because the range test comes before
  the test of float_dynamic_addressing.
\<close>

theorem GetPackedFloatConstantIndex_dynamic:
  "float_dynamic_addressing m \<Longrightarrow>
   (c < 256 \<longrightarrow> GetPackedFloatConstantIndex m c = Some c \<and>
                 GetPackedFloatConstantIndex m c \<noteq> Some UINT32_MAX) \<and>
   (256 \<le> c \<longrightarrow> GetPackedFloatConstantIndex m c = Some UINT32_MAX)"
  by (auto simp: GetPackedFloatConstantIndex_def UINT32_MAX_def)

theorem GetPackedFloatConstantIndex_dynamic_witness:
  "float_dynamic_addressing (scenario_map True) \<and>
   \<not> float_bit_set (scenario_map True) 4 \<and>
   GetPackedFloatConstantIndex (scenario_map True) 4 = Some 4 \<and>
   GetPackedFloatConstantIndex (scenario_map True) 255 = Some 255 \<and>
   GetPackedFloatConstantIndex (scenario_map True) 256 = Some UINT32_MAX"
  using GetPackedFloatConstantIndex_dynamic [of "scenario_map True" 4]
    GetPackedFloatConstantIndex_dynamic [of "scenario_map True" 255]
    GetPackedFloatConstantIndex_dynamic [of "scenario_map True" 256]
  by (simp add: scenario_map_def float_bit_set_scenario [of True, unfolded scenario_map_def])

text \<open>
  The claim as the spec words it, the identity on every float-constant index once dynamic
  addressing is on, fails at the float-constant index 300: the result is UINT32_MAX.
\<close>

theorem GetPackedFloatConstantIndex_dynamic_counterexample:
  "float_dynamic_addressing (scenario_map True) \<and>
   GetPackedFloatConstantIndex (scenario_map True) 300 = Some UINT32_MAX \<and>
   GetPackedFloatConstantIndex (scenario_map True) 300 \<noteq> Some 300"
  by (simp add: GetPackedFloatConstantIndex_def scenario_map_def UINT32_MAX_def)

end
